theory Spec2Isabelle
  imports Main "HOL-Library.Word"
begin

section \<open>Data model of allocation_tracking.c\<close>

text \<open>
  Pointers and \<open>size_t\<close> are 64-bit words (an LP64 target); \<open>NULL\<close> is the word 0.
  The three counters of \<open>AllocationStats\<close> are \<open>uint64_t\<close>, so \<open>+\<close> on them wraps
  modulo \<open>2 ^ 64\<close> as in C.
\<close>

type_synonym ptr = "64 word"
type_synonym size_t = "64 word"
type_synonym tid = nat

record AllocationStats =
  allocations :: "64 word"
  deallocations :: "64 word"
  bytes_allocated :: "64 word"

text \<open>
  The two \<open>__thread\<close> variables of the file: every thread has its own pair. The flag is
  a C \<open>int\<close> (32 bits) that the file only assigns 0 and 1 and only tests against 0.
\<close>

record thread_vars =
  tracking_enabled :: "32 word"
  stats :: AllocationStats

text \<open>
  \<open>pthread_once_t\<close>: the control is \<open>PTHREAD_ONCE_INIT\<close> until the first call of
  \<open>pthread_once\<close>, in progress while the init routine runs, done afterwards.
\<close>

datatype pthread_once_t = PTHREAD_ONCE_INIT | ONCE_IN_PROGRESS | ONCE_DONE

text \<open>
  The process: the three file-scope statics, the state of the underlying allocator (opaque,
  of any type \<open>'h\<close>) and the thread-local storage of every thread.
\<close>

record 'h process =
  real_malloc :: ptr
  real_free :: ptr
  init_once :: pthread_once_t
  heap :: 'h
  tls :: "tid \<Rightarrow> thread_vars"

text \<open>
  What the file takes from its platform and does not define itself:
  \<^item> \<open>dlsym_next name\<close> is the result of \<open>dlsym(RTLD_NEXT, name)\<close>, 0 when the symbol is
    not found;
  \<^item> \<open>libc_malloc\<close> and \<open>libc_free\<close> are the behaviour of the next \<open>malloc\<close> and \<open>free\<close>
    on the allocator state, reached by calling a non-null binding;
  \<^item> \<open>once_reentry\<close> is what \<open>pthread_once\<close> does when it is called on a control whose
    init routine is still running on the calling thread. POSIX leaves that case open;
    the usual implementations wait for the routine to finish and so never return.
\<close>

datatype reentry = Blocks | Returns

record 'h platform =
  dlsym_next :: "string \<Rightarrow> ptr"
  libc_malloc :: "'h \<Rightarrow> size_t \<Rightarrow> ptr \<times> 'h"
  libc_free :: "'h \<Rightarrow> ptr \<Rightarrow> 'h"
  once_reentry :: reentry

text \<open>A call that does not return: through a null function pointer, or blocked for ever.\<close>

datatype fault = NULL_CALL | DEADLOCK

definition zero_stats :: AllocationStats where
  "zero_stats = \<lparr>allocations = 0, deallocations = 0, bytes_allocated = 0\<rparr>"

text \<open>The state at process start: statics as initialised in the file, thread-locals zero.\<close>

definition process0 :: "'h \<Rightarrow> 'h process" where
  "process0 h =
     \<lparr>real_malloc = 0, real_free = 0, init_once = PTHREAD_ONCE_INIT, heap = h,
      tls = (\<lambda>t. \<lparr>tracking_enabled = 0, stats = zero_stats\<rparr>)\<rparr>"

section \<open>The functions of allocation_tracking.c\<close>

definition init_hooks :: "'h platform \<Rightarrow> 'h process \<Rightarrow> 'h process" where
  "init_hooks pf s =
     (let s1 = s\<lparr>real_malloc := dlsym_next pf ''malloc''\<rparr>
      in s1\<lparr>real_free := dlsym_next pf ''free''\<rparr>)"

definition pthread_once ::
  "'h platform \<Rightarrow> ('h process \<Rightarrow> 'h process) \<Rightarrow> 'h process \<Rightarrow> fault + 'h process" where
  "pthread_once pf init_routine s =
     (case init_once s of
        PTHREAD_ONCE_INIT \<Rightarrow>
          Inr ((init_routine (s\<lparr>init_once := ONCE_IN_PROGRESS\<rparr>))\<lparr>init_once := ONCE_DONE\<rparr>)
      | ONCE_IN_PROGRESS \<Rightarrow>
          (case once_reentry pf of Blocks \<Rightarrow> Inl DEADLOCK | Returns \<Rightarrow> Inr s)
      | ONCE_DONE \<Rightarrow> Inr s)"

definition malloc ::
  "'h platform \<Rightarrow> tid \<Rightarrow> size_t \<Rightarrow> 'h process \<Rightarrow> fault + (ptr \<times> 'h process)" where
  "malloc pf t sz s =
     (case pthread_once pf (init_hooks pf) s of
        Inl e \<Rightarrow> Inl e
      | Inr s1 \<Rightarrow>
          if real_malloc s1 = 0 then Inl NULL_CALL
          else
            (let (p, h') = libc_malloc pf (heap s1) sz;
                 s2 = s1\<lparr>heap := h'\<rparr>;
                 tv = tls s2 t
             in if tracking_enabled tv \<noteq> 0 \<and> p \<noteq> 0
                then
                  (let st1 = (stats tv)\<lparr>allocations := allocations (stats tv) + 1\<rparr>;
                       st2 = st1\<lparr>bytes_allocated := bytes_allocated st1 + sz\<rparr>
                   in Inr (p, s2\<lparr>tls := (tls s2)(t := tv\<lparr>stats := st2\<rparr>)\<rparr>))
                else Inr (p, s2)))"

definition free :: "'h platform \<Rightarrow> tid \<Rightarrow> ptr \<Rightarrow> 'h process \<Rightarrow> fault + 'h process" where
  "free pf t p s =
     (case pthread_once pf (init_hooks pf) s of
        Inl e \<Rightarrow> Inl e
      | Inr s1 \<Rightarrow>
          (let tv = tls s1 t;
               s2 = (if tracking_enabled tv \<noteq> 0 \<and> p \<noteq> 0
                     then s1\<lparr>tls := (tls s1)
                            (t := tv\<lparr>stats := (stats tv)
                               \<lparr>deallocations := deallocations (stats tv) + 1\<rparr>\<rparr>)\<rparr>
                     else s1)
           in if real_free s2 = 0 then Inl NULL_CALL
              else Inr (s2\<lparr>heap := libc_free pf (heap s2) p\<rparr>)))"

definition tracking_start :: "tid \<Rightarrow> 'h process \<Rightarrow> 'h process" where
  "tracking_start t s =
     (let s1 = s\<lparr>tls := (tls s)(t := (tls s t)\<lparr>stats := zero_stats\<rparr>)\<rparr>
      in s1\<lparr>tls := (tls s1)(t := (tls s1 t)\<lparr>tracking_enabled := 1\<rparr>)\<rparr>)"

definition tracking_stop :: "tid \<Rightarrow> 'h process \<Rightarrow> AllocationStats \<times> 'h process" where
  "tracking_stop t s =
     (let s1 = s\<lparr>tls := (tls s)(t := (tls s t)\<lparr>tracking_enabled := 0\<rparr>)\<rparr>
      in (stats (tls s1 t), s1))"

definition tracking_current :: "tid \<Rightarrow> 'h process \<Rightarrow> AllocationStats" where
  "tracking_current t s = stats (tls s t)"

section \<open>Programs: sequences of calls made by the threads of the process\<close>

text \<open>
  A program is a list of calls, each tagged with the thread that makes it, in the order in
  which they take effect. A call runs to its end before the next one starts: the variables a
  call reads and writes besides the allocator state are the thread-local ones of its own
  thread and the bindings, which are written once. So the in-progress state of the control
  is never seen at the start of a call of a program; it is seen only by a call made from
  inside \<open>init_hooks\<close>, on the thread that runs it. A program stops at the first call
  that does not return.
\<close>

datatype call = Malloc size_t | Free ptr | Tracking_start | Tracking_stop | Tracking_current

datatype retval = Ptr ptr | Void | Stats AllocationStats

fun step :: "'h platform \<Rightarrow> tid \<Rightarrow> call \<Rightarrow> 'h process \<Rightarrow> fault + (retval \<times> 'h process)" where
  "step pf t (Malloc n) s =
     (case malloc pf t n s of Inl e \<Rightarrow> Inl e | Inr (p, s') \<Rightarrow> Inr (Ptr p, s'))"
| "step pf t (Free p) s =
     (case free pf t p s of Inl e \<Rightarrow> Inl e | Inr s' \<Rightarrow> Inr (Void, s'))"
| "step pf t Tracking_start s = Inr (Void, tracking_start t s)"
| "step pf t Tracking_stop s = (case tracking_stop t s of (r, s') \<Rightarrow> Inr (Stats r, s'))"
| "step pf t Tracking_current s = Inr (Stats (tracking_current t s), s)"

fun run ::
  "'h platform \<Rightarrow> (tid \<times> call) list \<Rightarrow> 'h process \<Rightarrow> fault + (retval list \<times> 'h process)" where
  "run pf [] s = Inr ([], s)"
| "run pf ((t, c) # evs) s =
     (case step pf t c s of
        Inl e \<Rightarrow> Inl e
      | Inr (r, s') \<Rightarrow>
          (case run pf evs s' of Inl e \<Rightarrow> Inl e | Inr (rs, s'') \<Rightarrow> Inr (r # rs, s'')))"

text \<open>
  Reading a program: the sizes of the \<open>malloc\<close> calls and the pointers of the \<open>free\<close> calls
  that thread \<open>t\<close> makes, in order.
\<close>

fun mallocs_of :: "tid \<Rightarrow> (tid \<times> call) list \<Rightarrow> size_t list" where
  "mallocs_of t [] = []"
| "mallocs_of t ((u, Malloc n) # evs) = (if u = t then n # mallocs_of t evs else mallocs_of t evs)"
| "mallocs_of t (e # evs) = mallocs_of t evs"

fun frees_of :: "tid \<Rightarrow> (tid \<times> call) list \<Rightarrow> ptr list" where
  "frees_of t [] = []"
| "frees_of t ((u, Free p) # evs) = (if u = t then p # frees_of t evs else frees_of t evs)"
| "frees_of t (e # evs) = frees_of t evs"

text \<open>
  The calls a thread makes inside a tracking window when it only allocates and releases:
  any \<open>malloc\<close>, and \<open>free\<close> of a non-null pointer. A \<open>malloc\<close> succeeded when it returned
  a non-null pointer.
\<close>

fun in_window :: "call \<Rightarrow> bool" where
  "in_window (Malloc n) = True"
| "in_window (Free p) = (p \<noteq> 0)"
| "in_window c = False"

fun succeeded :: "retval \<Rightarrow> bool" where
  "succeeded (Ptr p) = (p \<noteq> 0)"
| "succeeded r = True"

text \<open>
  The normal operating condition of the resolver: the platform finds both symbols, and the
  process is either before its first intercepted call or past the initialization with the
  bindings that \<open>init_hooks\<close> stored.
\<close>

definition resolved :: "'h platform \<Rightarrow> 'h process \<Rightarrow> bool" where
  "resolved pf s \<longleftrightarrow>
     dlsym_next pf ''malloc'' \<noteq> 0 \<and> dlsym_next pf ''free'' \<noteq> 0 \<and>
     (init_once s = PTHREAD_ONCE_INIT \<or>
      init_once s = ONCE_DONE \<and> real_malloc s = dlsym_next pf ''malloc'' \<and>
        real_free s = dlsym_next pf ''free'')"

text \<open>
  A call does not wrap a counter when the exact sum still fits into 64 bits; the order on
  statistics is the order of each counter as an unsigned number.
\<close>

fun no_wrap :: "AllocationStats \<Rightarrow> call \<Rightarrow> bool" where
  "no_wrap st (Malloc n) =
     (unat (allocations st) + 1 < 2 ^ 64 \<and> unat (bytes_allocated st) + unat n < 2 ^ 64)"
| "no_wrap st (Free p) = (unat (deallocations st) + 1 < 2 ^ 64)"
| "no_wrap st c = True"

definition stats_le :: "AllocationStats \<Rightarrow> AllocationStats \<Rightarrow> bool" where
  "stats_le a b \<longleftrightarrow>
     allocations a \<le> allocations b \<and> deallocations a \<le> deallocations b \<and>
     bytes_allocated a \<le> bytes_allocated b"

section \<open>A concrete platform and concrete programs\<close>

text \<open>
  An arena allocator on a 64-bit break pointer: a request of at most 4096 bytes gets the next
  4096-byte block, a larger one fails with \<open>NULL\<close>; \<open>free\<close> does nothing. \<open>dlsym\<close> finds
  both symbols, and \<open>pthread_once\<close> blocks when re-entered.
\<close>

definition arena_malloc :: "64 word \<Rightarrow> size_t \<Rightarrow> ptr \<times> 64 word" where
  "arena_malloc h n = (if n \<le> 4096 then (h, h + 4096) else (0, h))"

definition arena_free :: "64 word \<Rightarrow> ptr \<Rightarrow> 64 word" where
  "arena_free h p = h"

definition arena_platform :: "64 word platform" where
  "arena_platform =
     \<lparr>dlsym_next = (\<lambda>name. if name = ''malloc'' then 0x1000
                           else if name = ''free'' then 0x2000 else 0),
      libc_malloc = arena_malloc, libc_free = arena_free, once_reentry = Blocks\<rparr>"

text \<open>The same platform with no next \<open>malloc\<close> and \<open>free\<close> to find (a static link).\<close>

definition static_platform :: "64 word platform" where
  "static_platform = arena_platform\<lparr>dlsym_next := (\<lambda>name. 0)\<rparr>"

text \<open>The same platform with a \<open>pthread_once\<close> that returns at once when re-entered.\<close>

definition reentrant_platform :: "64 word platform" where
  "reentrant_platform = arena_platform\<lparr>once_reentry := Returns\<rparr>"

text \<open>
  The scenario of the specification: thread 0 has started tracking, allocates 10 and 20 bytes
  and releases the first block, while thread 1 allocates without ever starting tracking.
\<close>

definition scenario :: "(tid \<times> call) list" where
  "scenario = [(0, Malloc 10), (1, Malloc 5), (0, Malloc 20), (0, Free 0x10000), (1, Malloc 7)]"

definition scenario_results :: "retval list" where
  "scenario_results = [Ptr 0x10000, Ptr 0x11000, Ptr 0x12000, Void, Ptr 0x13000]"

definition scenario_final :: "64 word process" where
  "scenario_final =
     \<lparr>real_malloc = 0x1000, real_free = 0x2000, init_once = ONCE_DONE, heap = 0x14000,
      tls = (\<lambda>t. \<lparr>tracking_enabled = 0, stats = zero_stats\<rparr>)
        (0 := \<lparr>tracking_enabled = 1,
               stats = \<lparr>allocations = 2, deallocations = 1, bytes_allocated = 30\<rparr>\<rparr>)\<rparr>"

text \<open>Traffic after a \<open>tracking_stop\<close> of thread 0, with a failing request at the end.\<close>

definition after_stop :: "(tid \<times> call) list" where
  "after_stop = [(0, Malloc 8), (0, Tracking_current), (1, Tracking_start), (1, Malloc 3),
     (0, Free 0x10000), (0, Tracking_stop), (0, Malloc 4097)]"

text \<open>Thread 1 never starts tracking while thread 0 opens and closes a window.\<close>

definition bystander :: "(tid \<times> call) list" where
  "bystander = [(0, Tracking_start), (1, Malloc 1), (0, Malloc 10), (1, Malloc 2), (1, Free 0x10000),
     (1, Tracking_current), (0, Malloc 20), (1, Malloc 3), (1, Tracking_stop), (1, Malloc 4),
     (0, Tracking_stop), (1, Malloc 5)]"

text \<open>A program that neither allocates nor releases.\<close>

definition idle :: "(tid \<times> call) list" where
  "idle = [(0, Tracking_start), (0, Tracking_current)]"

text \<open>Thread 0 in an open window whose byte counter holds the largest 64-bit number.\<close>

definition near_full :: "64 word process" where
  "near_full =
     scenario_final\<lparr>tls := (tls scenario_final)(0 := \<lparr>tracking_enabled = 1,
       stats = \<lparr>allocations = 2, deallocations = 1, bytes_allocated = 0xFFFFFFFFFFFFFFFF\<rparr>\<rparr>)\<rparr>"

text \<open>
  Thread 0 has called \<open>tracking_start\<close> and then made the first intercepted call of the
  process: \<open>pthread_once\<close> has marked the control in progress and \<open>init_hooks\<close> has stored
  \<open>real_malloc\<close> and is inside its second \<open>dlsym\<close>. A \<open>malloc\<close> that \<open>dlsym\<close> makes
  internally runs in this state.
\<close>

definition during_init :: "64 word process" where
  "during_init =
     ((tracking_start 0 (process0 0x10000))\<lparr>init_once := ONCE_IN_PROGRESS\<rparr>)
       \<lparr>real_malloc := dlsym_next arena_platform ''malloc''\<rparr>"

section \<open>Facts about single calls and about programs\<close>

lemmas model_defs = malloc_def free_def pthread_once_def init_hooks_def tracking_start_def
  tracking_stop_def tracking_current_def process0_def zero_stats_def Let_def

lemmas arena_defs = arena_platform_def arena_malloc_def arena_free_def

lemma pthread_once_frame:
  assumes "pthread_once pf (init_hooks pf) s = Inr s1"
  shows "tls s1 = tls s" and "heap s1 = heap s"
  using assms
  by (auto simp: pthread_once_def init_hooks_def Let_def split: pthread_once_t.splits reentry.splits)

lemma pthread_once_resolved:
  assumes "resolved pf s"
  shows "\<exists>s1. pthread_once pf (init_hooks pf) s = Inr s1 \<and> init_once s1 = ONCE_DONE \<and>
           real_malloc s1 = dlsym_next pf ''malloc'' \<and> real_free s1 = dlsym_next pf ''free'' \<and>
           tls s1 = tls s \<and> heap s1 = heap s"
  using assms
  by (auto simp: resolved_def pthread_once_def init_hooks_def Let_def)

lemma malloc_Inr:
  assumes "malloc pf t sz s = Inr (p, s')"
  shows "p = fst (libc_malloc pf (heap s) sz)"
    and "heap s' = snd (libc_malloc pf (heap s) sz)"
    and "\<And>u. u \<noteq> t \<Longrightarrow> tls s' u = tls s u"
    and "tracking_enabled (tls s' t) = tracking_enabled (tls s t)"
    and "stats (tls s' t) =
           (if tracking_enabled (tls s t) \<noteq> 0 \<and> p \<noteq> 0
            then \<lparr>allocations = allocations (stats (tls s t)) + 1,
                  deallocations = deallocations (stats (tls s t)),
                  bytes_allocated = bytes_allocated (stats (tls s t)) + sz\<rparr>
            else stats (tls s t))"
  using assms pthread_once_frame[of pf s]
  by (auto simp: malloc_def Let_def split: sum.splits if_splits prod.splits)

lemma free_Inr:
  assumes "free pf t p s = Inr s'"
  shows "heap s' = libc_free pf (heap s) p"
    and "\<And>u. u \<noteq> t \<Longrightarrow> tls s' u = tls s u"
    and "tracking_enabled (tls s' t) = tracking_enabled (tls s t)"
    and "stats (tls s' t) =
           (if tracking_enabled (tls s t) \<noteq> 0 \<and> p \<noteq> 0
            then \<lparr>allocations = allocations (stats (tls s t)),
                  deallocations = deallocations (stats (tls s t)) + 1,
                  bytes_allocated = bytes_allocated (stats (tls s t))\<rparr>
            else stats (tls s t))"
  using assms pthread_once_frame[of pf s]
  by (auto simp: free_def Let_def split: sum.splits if_splits prod.splits)

lemma resolved_process0:
  assumes "dlsym_next pf ''malloc'' \<noteq> 0" and "dlsym_next pf ''free'' \<noteq> 0"
  shows "resolved pf (process0 h)"
  using assms by (simp add: resolved_def process0_def)

lemma malloc_resolved:
  assumes "resolved pf s"
  shows "\<exists>s'. malloc pf t sz s = Inr (fst (libc_malloc pf (heap s) sz), s') \<and> resolved pf s'"
  using pthread_once_resolved[OF assms] assms
  by (auto simp: malloc_def Let_def resolved_def split: prod.splits)

lemma free_resolved:
  assumes "resolved pf s"
  shows "\<exists>s'. free pf t p s = Inr s' \<and> resolved pf s'"
  using pthread_once_resolved[OF assms] assms
  by (auto simp: free_def Let_def resolved_def split: prod.splits)

lemma step_other_thread:
  assumes "step pf u c s = Inr (r, s')" and "u \<noteq> t"
  shows "tls s' t = tls s t"
  using assms
  by (cases c) (auto simp: tracking_start_def tracking_stop_def Let_def
      dest: malloc_Inr(3) free_Inr(2) split: sum.splits prod.splits)

lemma step_disabled:
  assumes "step pf t c s = Inr (r, s')" and "tracking_enabled (tls s t) = 0"
    and "c \<noteq> Tracking_start"
  shows "tls s' t = tls s t"
proof (cases c)
  case (Malloc n)
  with assms obtain p where m: "malloc pf t n s = Inr (p, s')"
    by (auto split: sum.splits prod.splits)
  show ?thesis using malloc_Inr(4,5)[OF m] assms(2) by (simp add: thread_vars.equality)
next
  case (Free p)
  with assms have f: "free pf t p s = Inr s'" by (auto split: sum.splits)
  show ?thesis using free_Inr(3,4)[OF f] assms(2) by (simp add: thread_vars.equality)
next
  case Tracking_stop
  with assms show ?thesis by (auto simp: tracking_stop_def Let_def thread_vars.equality)
qed (use assms in auto)

lemma run_frozen:
  assumes "run pf evs s = Inr (rs, s')" and "tracking_enabled (tls s t) = 0"
    and "\<forall>(u, c) \<in> set evs. u = t \<longrightarrow> c \<noteq> Tracking_start"
  shows "tls s' t = tls s t \<and>
         (\<forall>(e, r) \<in> set (zip evs rs). e = (t, Tracking_current) \<longrightarrow> r = Stats (stats (tls s t)))"
  using assms
proof (induction evs arbitrary: s rs)
  case Nil
  then show ?case by simp
next
  case (Cons e evs)
  obtain u c where e: "e = (u, c)" by (cases e)
  from Cons.prems(1) e obtain r s1 rs1 where
    st: "step pf u c s = Inr (r, s1)" and rn: "run pf evs s1 = Inr (rs1, s')" and rs: "rs = r # rs1"
    by (auto split: sum.splits prod.splits)
  have keep: "tls s1 t = tls s t"
  proof (cases "u = t")
    case True
    with Cons.prems(3) e have "c \<noteq> Tracking_start" by auto
    with st True Cons.prems(2) show ?thesis by (auto dest: step_disabled)
  next
    case False
    with st show ?thesis by (rule step_other_thread)
  qed
  have hd: "e = (t, Tracking_current) \<longrightarrow> r = Stats (stats (tls s t))"
    using st e by (auto simp: tracking_current_def)
  have "tls s' t = tls s1 t \<and>
         (\<forall>(e, r) \<in> set (zip evs rs1). e = (t, Tracking_current) \<longrightarrow> r = Stats (stats (tls s1 t)))"
    using Cons.IH[OF rn] Cons.prems(2,3) keep by simp
  with keep hd rs show ?case by auto
qed

lemma step_resolved:
  assumes "resolved pf s"
  shows "\<exists>r s'. step pf t c s = Inr (r, s') \<and> resolved pf s'"
proof (cases c)
  case (Malloc n)
  then show ?thesis using malloc_resolved[OF assms, of t n] by auto
next
  case (Free p)
  then show ?thesis using free_resolved[OF assms, of t p] by auto
qed (use assms in \<open>auto simp: resolved_def tracking_start_def tracking_stop_def Let_def\<close>)

lemma run_resolved:
  assumes "resolved pf s"
  shows "\<exists>rs s'. run pf evs s = Inr (rs, s') \<and> resolved pf s'"
  using assms
proof (induction evs arbitrary: s)
  case Nil
  then show ?case by simp
next
  case (Cons e evs)
  obtain u c where e: "e = (u, c)" by (cases e)
  from step_resolved[OF Cons.prems, of u c] obtain r s1 where
    st: "step pf u c s = Inr (r, s1)" and r1: "resolved pf s1" by blast
  from Cons.IH[OF r1] obtain rs s' where "run pf evs s1 = Inr (rs, s')" "resolved pf s'" by blast
  with st e show ?case by auto
qed

lemma step_window:
  assumes "step pf t c s = Inr (r, s')" and "tracking_enabled (tls s t) \<noteq> 0"
    and "in_window c" and "succeeded r"
  shows "tracking_enabled (tls s' t) = tracking_enabled (tls s t)"
    and "allocations (stats (tls s' t)) =
           allocations (stats (tls s t)) + of_nat (length (mallocs_of t [(t, c)]))"
    and "deallocations (stats (tls s' t)) =
           deallocations (stats (tls s t)) + of_nat (length (frees_of t [(t, c)]))"
    and "bytes_allocated (stats (tls s' t)) =
           bytes_allocated (stats (tls s t)) + sum_list (mallocs_of t [(t, c)])"
proof -
  show "tracking_enabled (tls s' t) = tracking_enabled (tls s t)"
    using assms by (cases c) (auto dest: malloc_Inr(4) free_Inr(3) split: sum.splits prod.splits)
  show "allocations (stats (tls s' t)) =
           allocations (stats (tls s t)) + of_nat (length (mallocs_of t [(t, c)]))"
    using assms by (cases c) (auto dest: malloc_Inr(5) free_Inr(4) split: sum.splits prod.splits)
  show "deallocations (stats (tls s' t)) =
           deallocations (stats (tls s t)) + of_nat (length (frees_of t [(t, c)]))"
    using assms by (cases c) (auto dest: malloc_Inr(5) free_Inr(4) split: sum.splits prod.splits)
  show "bytes_allocated (stats (tls s' t)) =
           bytes_allocated (stats (tls s t)) + sum_list (mallocs_of t [(t, c)])"
    using assms by (cases c) (auto dest: malloc_Inr(5) free_Inr(4) split: sum.splits prod.splits)
qed

lemma mallocs_of_Cons:
  "mallocs_of t ((u, c) # evs) = (if u = t then mallocs_of t [(t, c)] else []) @ mallocs_of t evs"
  by (cases c) auto

lemma frees_of_Cons:
  "frees_of t ((u, c) # evs) = (if u = t then frees_of t [(t, c)] else []) @ frees_of t evs"
  by (cases c) auto

lemma run_window:
  assumes "run pf evs s = Inr (rs, s')" and "tracking_enabled (tls s t) \<noteq> 0"
    and "\<forall>(u, c) \<in> set evs. u = t \<longrightarrow> in_window c"
    and "\<forall>((u, c), r) \<in> set (zip evs rs). u = t \<longrightarrow> succeeded r"
  shows "tracking_enabled (tls s' t) = tracking_enabled (tls s t) \<and>
         allocations (stats (tls s' t)) =
           allocations (stats (tls s t)) + of_nat (length (mallocs_of t evs)) \<and>
         deallocations (stats (tls s' t)) =
           deallocations (stats (tls s t)) + of_nat (length (frees_of t evs)) \<and>
         bytes_allocated (stats (tls s' t)) =
           bytes_allocated (stats (tls s t)) + sum_list (mallocs_of t evs)"
  using assms
proof (induction evs arbitrary: s rs)
  case Nil
  then show ?case by simp
next
  case (Cons e evs)
  obtain u c where e: "e = (u, c)" by (cases e)
  from Cons.prems(1) e obtain r s1 rs1 where
    st: "step pf u c s = Inr (r, s1)" and rn: "run pf evs s1 = Inr (rs1, s')" and rs: "rs = r # rs1"
    by (auto split: sum.splits prod.splits)
  have tl3: "\<forall>(u, c) \<in> set evs. u = t \<longrightarrow> in_window c"
    using Cons.prems(3) by simp
  have tl4: "\<forall>((u, c), r) \<in> set (zip evs rs1). u = t \<longrightarrow> succeeded r"
    using Cons.prems(4) rs by simp
  show ?case
  proof (cases "u = t")
    case True
    have w: "in_window c" using Cons.prems(3) e True by simp
    have ok: "succeeded r" using Cons.prems(4) e rs True by simp
    have st': "step pf t c s = Inr (r, s1)" using st True by simp
    note hd = step_window[OF st' Cons.prems(2) w ok]
    have en: "tracking_enabled (tls s1 t) \<noteq> 0" using hd(1) Cons.prems(2) by simp
    have m: "mallocs_of t (e # evs) = mallocs_of t [(t, c)] @ mallocs_of t evs"
      using mallocs_of_Cons[of t u c evs] True e by simp
    have f: "frees_of t (e # evs) = frees_of t [(t, c)] @ frees_of t evs"
      using frees_of_Cons[of t u c evs] True e by simp
    from Cons.IH[OF rn en tl3 tl4] hd show ?thesis
      unfolding m f by (simp only: length_append sum_list_append of_nat_add add.assoc)
  next
    case False
    have same: "tls s1 t = tls s t" using st False by (rule step_other_thread)
    have en: "tracking_enabled (tls s1 t) \<noteq> 0" using same Cons.prems(2) by simp
    have m: "mallocs_of t (e # evs) = mallocs_of t evs"
      using mallocs_of_Cons[of t u c evs] False e by simp
    have f: "frees_of t (e # evs) = frees_of t evs"
      using frees_of_Cons[of t u c evs] False e by simp
    from Cons.IH[OF rn en tl3 tl4] same show ?thesis
      unfolding m f by simp
  qed
qed

lemma unat_sum_list_word:
  "unat (sum_list xs :: 64 word) = sum_list (map unat xs) mod 2 ^ 64"
proof (induction xs)
  case Nil
  then show ?case by simp
next
  case (Cons x xs)
  have "unat (x + sum_list xs) = (unat x + unat (sum_list xs)) mod 2 ^ 64"
    by (simp add: unat_word_ariths)
  also have "\<dots> = (unat x + sum_list (map unat xs) mod 2 ^ 64) mod 2 ^ 64"
    by (simp only: Cons.IH)
  also have "\<dots> = (unat x + sum_list (map unat xs)) mod 2 ^ 64"
    by (rule mod_add_right_eq)
  finally show ?case by simp
qed

lemma word64_le_plus:
  fixes a b :: "64 word"
  assumes "unat a + unat b < 2 ^ 64"
  shows "a \<le> a + b"
  using assms by (simp add: no_olen_add_nat)

lemma step_done:
  assumes "step pf t c s = Inr (r, s')" and "init_once s = ONCE_DONE"
  shows "init_once s' = ONCE_DONE \<and> real_malloc s' = real_malloc s \<and> real_free s' = real_free s"
  using assms
  by (cases c)
    (auto simp: malloc_def free_def pthread_once_def tracking_start_def tracking_stop_def Let_def
      split: sum.splits prod.splits if_splits)

lemma run_done:
  assumes "run pf evs s = Inr (rs, s')" and "init_once s = ONCE_DONE"
  shows "init_once s' = ONCE_DONE \<and> real_malloc s' = real_malloc s \<and> real_free s' = real_free s"
  using assms
proof (induction evs arbitrary: s rs)
  case Nil
  then show ?case by simp
next
  case (Cons e evs)
  obtain u c where e: "e = (u, c)" by (cases e)
  from Cons.prems(1) e obtain r s1 rs1 where
    st: "step pf u c s = Inr (r, s1)" and rn: "run pf evs s1 = Inr (rs1, s')"
    by (auto split: sum.splits prod.splits)
  from step_done[OF st Cons.prems(2)] Cons.IH[OF rn] show ?case by simp
qed

lemma scenario_run:
  "run arena_platform scenario (tracking_start 0 (process0 0x10000)) =
     Inr (scenario_results, scenario_final)"
  by (simp add: scenario_def scenario_results_def scenario_final_def model_defs arena_defs)

lemma resolved_final: "resolved arena_platform scenario_final"
  by (simp add: resolved_def scenario_final_def arena_defs)

lemma counter_wraps_on_overflow:
  "\<not> no_wrap (stats (tls near_full 0)) (Malloc 1) \<and>
   bytes_allocated (tracking_current 0 near_full) = 18446744073709551615 \<and>
   (\<exists>s'. malloc arena_platform 0 1 near_full = Inr (0x14000, s') \<and>
      bytes_allocated (tracking_current 0 s') = 0)"
  by (simp add: near_full_def scenario_final_def model_defs arena_defs)

section \<open>The properties of the specification\<close>

text \<open>
  Claim C1 (counting correctness). Thread \<open>t\<close> calls \<open>tracking_start\<close>; then the process
  runs any program in which \<open>t\<close> itself only calls \<open>malloc\<close> and \<open>free\<close> of non-null
  pointers and every \<open>malloc\<close> of \<open>t\<close> returns non-null, while the other threads do whatever
  they like. Then \<open>tracking_stop\<close> on \<open>t\<close> returns the number \<open>N\<close> of its \<open>malloc\<close> calls,
  the number \<open>M\<close> of its \<open>free\<close> calls and the sum of the requested sizes. The counters are
  \<open>uint64_t\<close>: the record holds \<open>N\<close>, \<open>M\<close> and the sum as 64-bit values, that is, read as
  numbers, modulo \<open>2 ^ 64\<close>.
\<close>

theorem counting_correctness:
  assumes "run pf evs (tracking_start t s) = Inr (rs, s')"
    and "\<forall>(u, c) \<in> set evs. u = t \<longrightarrow> in_window c"
    and "\<forall>((u, c), r) \<in> set (zip evs rs). u = t \<longrightarrow> succeeded r"
  shows "fst (tracking_stop t s') =
           \<lparr>allocations = of_nat (length (mallocs_of t evs)),
            deallocations = of_nat (length (frees_of t evs)),
            bytes_allocated = sum_list (mallocs_of t evs)\<rparr> \<and>
         unat (allocations (fst (tracking_stop t s'))) = length (mallocs_of t evs) mod 2 ^ 64 \<and>
         unat (deallocations (fst (tracking_stop t s'))) = length (frees_of t evs) mod 2 ^ 64 \<and>
         unat (bytes_allocated (fst (tracking_stop t s'))) =
           sum_list (map unat (mallocs_of t evs)) mod 2 ^ 64"
proof -
  have en: "tracking_enabled (tls (tracking_start t s) t) \<noteq> 0"
    by (simp add: tracking_start_def Let_def)
  have z: "stats (tls (tracking_start t s) t) = zero_stats"
    by (simp add: tracking_start_def Let_def)
  from run_window[OF assms(1) en assms(2,3)] z
  have r: "fst (tracking_stop t s') =
           \<lparr>allocations = of_nat (length (mallocs_of t evs)),
            deallocations = of_nat (length (frees_of t evs)),
            bytes_allocated = sum_list (mallocs_of t evs)\<rparr>"
    by (simp add: tracking_stop_def Let_def zero_stats_def AllocationStats.equality)
  show ?thesis
    unfolding r by (simp add: unat_sum_list_word unat_of_nat)
qed

text \<open>
  The scenario of the specification satisfies the hypotheses of C1 and yields
  \<open>{allocations: 2, deallocations: 1, bytes_allocated: 30}\<close>.
\<close>

theorem counting_correctness_witness:
  "run arena_platform scenario (tracking_start 0 (process0 0x10000)) =
     Inr (scenario_results, scenario_final) \<and>
   fst (tracking_stop 0 scenario_final) =
     \<lparr>allocations = 2, deallocations = 1, bytes_allocated = 30\<rparr>"
proof -
  have w: "\<forall>(u, c) \<in> set scenario. u = 0 \<longrightarrow> in_window c"
    by (simp add: scenario_def)
  have ok: "\<forall>((u, c), r) \<in> set (zip scenario scenario_results). u = 0 \<longrightarrow> succeeded r"
    by (simp add: scenario_def scenario_results_def)
  from counting_correctness[OF scenario_run w ok] scenario_run show ?thesis
    by (simp add: scenario_def)
qed

text \<open>
  Claim C2 as stated fails where \<open>dlsym\<close> finds no next \<open>malloc\<close> and \<open>free\<close>:
  \<open>init_hooks\<close> stores the results unchecked, so the one-time initialization completes
  with both bindings null, and the first \<open>malloc\<close> (or a later \<open>free\<close>) calls through the
  null pointer.
\<close>

theorem bindings_nonnull_counterexample:
  "pthread_once static_platform (init_hooks static_platform) (process0 0x10000) =
     Inr ((process0 0x10000)\<lparr>init_once := ONCE_DONE\<rparr>) \<and>
   real_malloc ((process0 0x10000)\<lparr>init_once := ONCE_DONE\<rparr>) = 0 \<and>
   real_free ((process0 0x10000)\<lparr>init_once := ONCE_DONE\<rparr>) = 0 \<and>
   malloc static_platform 0 16 (process0 0x10000) = Inl NULL_CALL \<and>
   free static_platform 0 0x10000 ((process0 0x10000)\<lparr>init_once := ONCE_DONE\<rparr>) = Inl NULL_CALL"
  by (simp add: static_platform_def model_defs arena_defs)

text \<open>
  Claim C2, amended. Once the one-time initialization has completed, \<open>real_malloc\<close> and
  \<open>real_free\<close> hold what \<open>dlsym(RTLD_NEXT, "malloc")\<close> and \<open>dlsym(RTLD_NEXT, "free")\<close>
  returned, and no later call of any thread changes them. When both lookups succeeded the
  bindings are non-null and every program of calls runs to its end: no \<open>malloc\<close> or
  \<open>free\<close> calls through a null pointer. A resolution failure is not silent: when the
  lookup of \<open>malloc\<close> failed, every \<open>malloc\<close> call made right after the initialization
  or after any program stops at the call through the null binding and does not return,
  and likewise every \<open>free\<close> call when the lookup of \<open>free\<close> failed.
\<close>

theorem bindings_fixed_after_init:
  assumes "init_once s = PTHREAD_ONCE_INIT"
    and "pthread_once pf (init_hooks pf) s = Inr s1"
  shows "real_malloc s1 = dlsym_next pf ''malloc'' \<and> real_free s1 = dlsym_next pf ''free'' \<and>
         (run pf evs s1 = Inr (rs, s2) \<longrightarrow>
            real_malloc s2 = real_malloc s1 \<and> real_free s2 = real_free s1) \<and>
         (dlsym_next pf ''malloc'' \<noteq> 0 \<and> dlsym_next pf ''free'' \<noteq> 0 \<longrightarrow>
            (\<exists>rs' s2'. run pf evs s1 = Inr (rs', s2'))) \<and>
         (dlsym_next pf ''malloc'' = 0 \<longrightarrow>
            malloc pf t sz s1 = Inl NULL_CALL \<and>
            (run pf evs s1 = Inr (rs, s2) \<longrightarrow> malloc pf t sz s2 = Inl NULL_CALL)) \<and>
         (dlsym_next pf ''free'' = 0 \<longrightarrow>
            free pf t p s1 = Inl NULL_CALL \<and>
            (run pf evs s1 = Inr (rs, s2) \<longrightarrow> free pf t p s2 = Inl NULL_CALL))"
proof -
  from assms have s1: "init_once s1 = ONCE_DONE" "real_malloc s1 = dlsym_next pf ''malloc''"
    "real_free s1 = dlsym_next pf ''free''"
    by (auto simp: pthread_once_def init_hooks_def Let_def)
  have done2: "run pf evs s1 = Inr (rs, s2) \<longrightarrow> init_once s2 = ONCE_DONE \<and>
            real_malloc s2 = real_malloc s1 \<and> real_free s2 = real_free s1"
    using run_done[of pf evs s1 rs s2] s1(1) by simp
  then have keep: "run pf evs s1 = Inr (rs, s2) \<longrightarrow>
            real_malloc s2 = real_malloc s1 \<and> real_free s2 = real_free s1"
    by simp
  have total: "dlsym_next pf ''malloc'' \<noteq> 0 \<and> dlsym_next pf ''free'' \<noteq> 0 \<longrightarrow>
            (\<exists>rs' s2'. run pf evs s1 = Inr (rs', s2'))"
  proof
    assume "dlsym_next pf ''malloc'' \<noteq> 0 \<and> dlsym_next pf ''free'' \<noteq> 0"
    with s1 have "resolved pf s1" by (simp add: resolved_def)
    from run_resolved[OF this, of evs] show "\<exists>rs' s2'. run pf evs s1 = Inr (rs', s2')" by blast
  qed
  have null_malloc: "malloc pf t sz x = Inl NULL_CALL"
    if "init_once x = ONCE_DONE" and "real_malloc x = 0" for x :: "'a process"
    using that by (simp add: malloc_def pthread_once_def)
  have null_free: "free pf t p x = Inl NULL_CALL"
    if "init_once x = ONCE_DONE" and "real_free x = 0" for x :: "'a process"
    using that by (simp add: free_def pthread_once_def Let_def)
  have m: "dlsym_next pf ''malloc'' = 0 \<longrightarrow>
            malloc pf t sz s1 = Inl NULL_CALL \<and>
            (run pf evs s1 = Inr (rs, s2) \<longrightarrow> malloc pf t sz s2 = Inl NULL_CALL)"
    using s1 done2 null_malloc[of s1] null_malloc[of s2] by simp
  have f: "dlsym_next pf ''free'' = 0 \<longrightarrow>
            free pf t p s1 = Inl NULL_CALL \<and>
            (run pf evs s1 = Inr (rs, s2) \<longrightarrow> free pf t p s2 = Inl NULL_CALL)"
    using s1 done2 null_free[of s1] null_free[of s2] by simp
  from s1(2,3) keep total m f show ?thesis by blast
qed

text \<open>
  On the arena platform the initialization binds the two addresses that \<open>dlsym\<close>
  returned, and they are still bound after the twelve calls of \<open>bystander\<close>. On the
  static platform both bindings are null after the initialization and after \<open>idle\<close>, and
  \<open>malloc\<close> and \<open>free\<close> stop at the null call.
\<close>

theorem bindings_fixed_after_init_witness:
  "init_once (process0 (0x10000 :: 64 word)) = PTHREAD_ONCE_INIT \<and>
   (\<exists>s1 rs s2. pthread_once arena_platform (init_hooks arena_platform) (process0 0x10000) = Inr s1 \<and>
      real_malloc s1 = 0x1000 \<and> real_free s1 = 0x2000 \<and>
      run arena_platform bystander s1 = Inr (rs, s2) \<and>
      real_malloc s2 = 0x1000 \<and> real_free s2 = 0x2000) \<and>
   (\<exists>s1 rs s2. pthread_once static_platform (init_hooks static_platform) (process0 0x10000) = Inr s1 \<and>
      real_malloc s1 = 0 \<and> real_free s1 = 0 \<and>
      malloc static_platform 0 16 s1 = Inl NULL_CALL \<and>
      free static_platform 0 0x10000 s1 = Inl NULL_CALL \<and>
      run static_platform idle s1 = Inr (rs, s2) \<and>
      real_malloc s2 = 0 \<and> real_free s2 = 0 \<and>
      malloc static_platform 0 16 s2 = Inl NULL_CALL \<and>
      free static_platform 0 0x10000 s2 = Inl NULL_CALL)"
proof -
  have i: "init_once (process0 (0x10000 :: 64 word)) = PTHREAD_ONCE_INIT"
    by (simp add: process0_def)
  obtain s1 where
    o: "pthread_once arena_platform (init_hooks arena_platform) (process0 0x10000) = Inr s1"
    by (simp add: pthread_once_def process0_def)
  have d: "dlsym_next arena_platform ''malloc'' = 0x1000" "dlsym_next arena_platform ''free'' = 0x2000"
    by (simp_all add: arena_defs)
  note b = bindings_fixed_after_init[OF i o, of bystander]
  from b[of "[]" s1] d obtain rs s2 where rn: "run arena_platform bystander s1 = Inr (rs, s2)"
    by auto
  from b[of rs s2] rn d have "real_malloc s1 = 0x1000 \<and> real_free s1 = 0x2000 \<and>
      real_malloc s2 = 0x1000 \<and> real_free s2 = 0x2000"
    by simp
  with o rn have found: "\<exists>s1 rs s2.
      pthread_once arena_platform (init_hooks arena_platform) (process0 0x10000) = Inr s1 \<and>
      real_malloc s1 = 0x1000 \<and> real_free s1 = 0x2000 \<and>
      run arena_platform bystander s1 = Inr (rs, s2) \<and>
      real_malloc s2 = 0x1000 \<and> real_free s2 = 0x2000"
    by blast
  obtain z1 where
    oz: "pthread_once static_platform (init_hooks static_platform) (process0 0x10000) = Inr z1"
    by (simp add: pthread_once_def process0_def)
  have dz: "dlsym_next static_platform ''malloc'' = 0" "dlsym_next static_platform ''free'' = 0"
    by (simp_all add: static_platform_def)
  obtain zs z2 where zn: "run static_platform idle z1 = Inr (zs, z2)"
    by (simp add: idle_def)
  from bindings_fixed_after_init[OF i oz, of idle zs z2 0 16 "0x10000"] dz zn
  have "real_malloc z1 = 0 \<and> real_free z1 = 0 \<and>
      malloc static_platform 0 16 z1 = Inl NULL_CALL \<and>
      free static_platform 0 0x10000 z1 = Inl NULL_CALL \<and>
      real_malloc z2 = 0 \<and> real_free z2 = 0 \<and>
      malloc static_platform 0 16 z2 = Inl NULL_CALL \<and>
      free static_platform 0 0x10000 z2 = Inl NULL_CALL"
    by simp
  with oz zn have missing: "\<exists>s1 rs s2.
      pthread_once static_platform (init_hooks static_platform) (process0 0x10000) = Inr s1 \<and>
      real_malloc s1 = 0 \<and> real_free s1 = 0 \<and>
      malloc static_platform 0 16 s1 = Inl NULL_CALL \<and>
      free static_platform 0 0x10000 s1 = Inl NULL_CALL \<and>
      run static_platform idle s1 = Inr (rs, s2) \<and>
      real_malloc s2 = 0 \<and> real_free s2 = 0 \<and>
      malloc static_platform 0 16 s2 = Inl NULL_CALL \<and>
      free static_platform 0 0x10000 s2 = Inl NULL_CALL"
    by blast
  from i found missing show ?thesis by blast
qed

text \<open>
  Claim C3 as stated fails: \<open>malloc\<close> has no guard for a call made from inside
  \<open>init_hooks\<close>. In \<open>during_init\<close> such a call of 16 bytes on thread 0 deadlocks where
  \<open>pthread_once\<close> blocks on re-entry. Where \<open>pthread_once\<close> returns instead, the call
  goes through a null pointer while \<open>real_malloc\<close> is still unset, and once it is set the
  call is counted in the statistics of thread 0, which go from \<open>{0, 0, 0}\<close> to
  \<open>{1, 0, 16}\<close>.
\<close>

theorem reentrant_malloc_counterexample:
  "malloc arena_platform 0 16 during_init = Inl DEADLOCK \<and>
   malloc reentrant_platform 0 16 (during_init\<lparr>real_malloc := 0\<rparr>) = Inl NULL_CALL \<and>
   tracking_current 0 during_init = \<lparr>allocations = 0, deallocations = 0, bytes_allocated = 0\<rparr> \<and>
   malloc reentrant_platform 0 16 during_init =
     Inr (0x10000, during_init\<lparr>heap := 0x11000,
        tls := (tls during_init)(0 := \<lparr>tracking_enabled = 1,
          stats = \<lparr>allocations = 1, deallocations = 0, bytes_allocated = 16\<rparr>\<rparr>)\<rparr>)"
  by (simp add: during_init_def reentrant_platform_def model_defs arena_defs)

text \<open>
  Claim C3, amended. A \<open>malloc\<close> call made while the one-time initialization is in
  progress takes the same path as every other call. It calls \<open>pthread_once\<close> on the
  in-progress control and deadlocks where \<open>pthread_once\<close> blocks there. Where
  \<open>pthread_once\<close> returns, the call goes through a null pointer if \<open>real_malloc\<close> is
  not bound yet; otherwise it returns the real allocator's result, changes no other thread's
  statistics, changes nothing when tracking is disabled on the calling thread or the result
  is null, and is counted (one allocation, \<open>sz\<close> bytes) when tracking is enabled on the
  calling thread and the result is non-null.
\<close>

theorem reentrant_malloc_behaviour:
  assumes "init_once s = ONCE_IN_PROGRESS"
  shows "(once_reentry pf = Blocks \<longrightarrow> malloc pf t sz s = Inl DEADLOCK) \<and>
         (once_reentry pf = Returns \<and> real_malloc s = 0 \<longrightarrow> malloc pf t sz s = Inl NULL_CALL) \<and>
         (once_reentry pf = Returns \<and> real_malloc s \<noteq> 0 \<longrightarrow>
            (\<exists>s'. malloc pf t sz s = Inr (fst (libc_malloc pf (heap s) sz), s') \<and>
               (\<forall>u. u \<noteq> t \<longrightarrow> tls s' u = tls s u) \<and>
               (tracking_enabled (tls s t) = 0 \<or> fst (libc_malloc pf (heap s) sz) = 0 \<longrightarrow>
                  tls s' = tls s) \<and>
               (tracking_enabled (tls s t) \<noteq> 0 \<and> fst (libc_malloc pf (heap s) sz) \<noteq> 0 \<longrightarrow>
                  allocations (stats (tls s' t)) = allocations (stats (tls s t)) + 1 \<and>
                  bytes_allocated (stats (tls s' t)) = bytes_allocated (stats (tls s t)) + sz \<and>
                  deallocations (stats (tls s' t)) = deallocations (stats (tls s t)))))"
  using assms
  by (auto simp: malloc_def pthread_once_def Let_def split: prod.splits)

text \<open>
  Both behaviours of \<open>pthread_once\<close> at the state \<open>during_init\<close>.
\<close>

theorem reentrant_malloc_behaviour_witness:
  "init_once during_init = ONCE_IN_PROGRESS \<and>
   once_reentry arena_platform = Blocks \<and>
   malloc arena_platform 0 16 during_init = Inl DEADLOCK \<and>
   once_reentry reentrant_platform = Returns \<and>
   (\<exists>s'. malloc reentrant_platform 0 16 during_init = Inr (0x10000, s') \<and>
      allocations (stats (tls s' 0)) = 1 \<and> bytes_allocated (stats (tls s' 0)) = 16 \<and>
      tls s' 1 = tls during_init 1)"
proof -
  have i: "init_once during_init = ONCE_IN_PROGRESS"
    by (simp add: during_init_def)
  have b: "once_reentry arena_platform = Blocks" and r: "once_reentry reentrant_platform = Returns"
    by (simp_all add: reentrant_platform_def arena_defs)
  have s: "real_malloc during_init \<noteq> 0" "tracking_enabled (tls during_init 0) \<noteq> 0"
    "stats (tls during_init 0) = zero_stats"
    "fst (libc_malloc reentrant_platform (heap during_init) 16) = 0x10000"
    by (simp_all add: during_init_def reentrant_platform_def model_defs arena_defs)
  from reentrant_malloc_behaviour[OF i, of arena_platform 0 16] b
  have dl: "malloc arena_platform 0 16 during_init = Inl DEADLOCK" by simp
  from reentrant_malloc_behaviour[OF i, of reentrant_platform 0 16] r s
  have "\<exists>s'. malloc reentrant_platform 0 16 during_init = Inr (0x10000, s') \<and>
      allocations (stats (tls s' 0)) = 1 \<and> bytes_allocated (stats (tls s' 0)) = 16 \<and>
      tls s' 1 = tls during_init 1"
    by (auto simp: zero_stats_def)
  with i b r dl show ?thesis by blast
qed

text \<open>
  Claim C4 (reset on start). In every state, \<open>tracking_start\<close> leaves the calling
  thread with all three counters zero and the flag set to 1. The state is arbitrary, so
  this covers a thread that is inside a window it never stopped.
\<close>

theorem tracking_start_resets:
  "tls (tracking_start t s) t = \<lparr>tracking_enabled = 1, stats = zero_stats\<rparr> \<and>
   tracking_current t (tracking_start t s) =
     \<lparr>allocations = 0, deallocations = 0, bytes_allocated = 0\<rparr>"
  by (simp add: tracking_start_def tracking_current_def zero_stats_def Let_def)

text \<open>
  Thread 0 is inside an open window with counters \<open>{2, 1, 30}\<close>; a second
  \<open>tracking_start\<close> zeroes them.
\<close>

theorem tracking_start_resets_witness:
  "tracking_current 0 scenario_final =
     \<lparr>allocations = 2, deallocations = 1, bytes_allocated = 30\<rparr> \<and>
   tracking_enabled (tls scenario_final 0) = 1 \<and>
   tls (tracking_start 0 scenario_final) 0 = \<lparr>tracking_enabled = 1, stats = zero_stats\<rparr> \<and>
   tracking_current 0 (tracking_start 0 scenario_final) =
     \<lparr>allocations = 0, deallocations = 0, bytes_allocated = 0\<rparr>"
  using tracking_start_resets[of 0 scenario_final]
  by (simp add: scenario_final_def tracking_current_def zero_stats_def)

text \<open>
  Claim C5 (freeze on stop). Let \<open>tracking_stop\<close> on thread \<open>t\<close> return \<open>r\<close>. After any
  program in which \<open>t\<close> does not call \<open>tracking_start\<close> (it may call \<open>malloc\<close>, \<open>free\<close>,
  \<open>tracking_current\<close> and \<open>tracking_stop\<close>; other threads are unrestricted), the
  statistics of \<open>t\<close> are still \<open>r\<close>, and every \<open>tracking_current\<close> that \<open>t\<close> made on the
  way returned \<open>r\<close>.
\<close>

theorem freeze_on_stop:
  assumes "tracking_stop t s = (r, s1)"
    and "run pf evs s1 = Inr (rs, s2)"
    and "\<forall>(u, c) \<in> set evs. u = t \<longrightarrow> c \<noteq> Tracking_start"
  shows "stats (tls s2 t) = r \<and> tracking_current t s2 = r \<and>
         (\<forall>(e, x) \<in> set (zip evs rs). e = (t, Tracking_current) \<longrightarrow> x = Stats r)"
proof -
  have off: "tracking_enabled (tls s1 t) = 0" and r: "stats (tls s1 t) = r"
    using assms(1) by (auto simp: tracking_stop_def Let_def)
  from run_frozen[OF assms(2) off assms(3)] r show ?thesis
    by (simp add: tracking_current_def)
qed

text \<open>
  After the stop of thread 0 at \<open>{2, 1, 30}\<close> the program \<open>after_stop\<close> allocates and
  releases on thread 0; \<open>tracking_current\<close> keeps returning \<open>{2, 1, 30}\<close>.
\<close>

theorem freeze_on_stop_witness:
  "\<exists>s1 rs s2. tracking_stop 0 scenario_final =
       (\<lparr>allocations = 2, deallocations = 1, bytes_allocated = 30\<rparr>, s1) \<and>
     run arena_platform after_stop s1 = Inr (rs, s2) \<and>
     rs ! 0 = Ptr 0x14000 \<and>
     rs ! 1 = Stats \<lparr>allocations = 2, deallocations = 1, bytes_allocated = 30\<rparr> \<and>
     tracking_current 0 s2 = \<lparr>allocations = 2, deallocations = 1, bytes_allocated = 30\<rparr>"
proof -
  obtain s1 where st: "tracking_stop 0 scenario_final =
       (\<lparr>allocations = 2, deallocations = 1, bytes_allocated = 30\<rparr>, s1)"
    by (simp add: scenario_final_def tracking_stop_def Let_def)
  have "resolved arena_platform s1"
    using st by (auto simp: resolved_def scenario_final_def tracking_stop_def Let_def arena_defs)
  from run_resolved[OF this, of after_stop] obtain rs s2 where
    rn: "run arena_platform after_stop s1 = Inr (rs, s2)" by blast
  have ns: "\<forall>(u, c) \<in> set after_stop. u = 0 \<longrightarrow> c \<noteq> Tracking_start"
    by (simp add: after_stop_def)
  note fz = freeze_on_stop[OF st rn ns]
  have r0: "rs ! 0 = Ptr 0x14000"
    using rn st
    by (auto simp: after_stop_def scenario_final_def tracking_stop_def malloc_def
        pthread_once_def Let_def arena_defs split: sum.splits prod.splits)
  have "length rs = length after_stop"
    using rn st
    by (auto simp: after_stop_def split: sum.splits prod.splits)
  then have "(after_stop ! 1, rs ! 1) \<in> set (zip after_stop rs)"
    by (simp add: in_set_zip after_stop_def) (rule exI[of _ 1], simp)
  with fz have r1: "rs ! 1 = Stats \<lparr>allocations = 2, deallocations = 1, bytes_allocated = 30\<rparr>"
    by (auto simp: after_stop_def)
  from st rn fz r0 r1 show ?thesis by blast
qed

text \<open>
  Claim C6 (null safety). With the real primitives resolved, \<open>free(NULL)\<close> returns in
  every thread state, leaves the thread-local variables of every thread as they were (so no
  deallocation is counted, whether tracking is enabled or not), and passes the null pointer
  on to the real \<open>free\<close>, whose result is the new allocator state.
\<close>

theorem free_null_not_counted:
  assumes "resolved pf s"
  shows "\<exists>s'. free pf t 0 s = Inr s' \<and> tls s' = tls s \<and>
              heap s' = libc_free pf (heap s) 0"
  using pthread_once_resolved[OF assms] assms
  by (auto simp: free_def Let_def resolved_def)

text \<open>
  \<open>free(NULL)\<close> on thread 0 inside its open window.
\<close>

theorem free_null_not_counted_witness:
  "resolved arena_platform scenario_final \<and>
   tracking_enabled (tls scenario_final 0) = 1 \<and>
   (\<exists>s'. free arena_platform 0 0 scenario_final = Inr s' \<and> tls s' = tls scenario_final \<and>
      heap s' = heap scenario_final \<and>
      tracking_current 0 s' = \<lparr>allocations = 2, deallocations = 1, bytes_allocated = 30\<rparr>)"
proof -
  from free_null_not_counted[OF resolved_final, of 0] obtain s' where
    f: "free arena_platform 0 0 scenario_final = Inr s'" "tls s' = tls scenario_final"
      "heap s' = libc_free arena_platform (heap scenario_final) 0"
    by blast
  have "heap s' = heap scenario_final"
    using f(3) by (simp add: arena_defs)
  moreover have "tracking_current 0 s' =
      \<lparr>allocations = 2, deallocations = 1, bytes_allocated = 30\<rparr>"
    using f(2) by (simp add: tracking_current_def scenario_final_def)
  moreover have "tracking_enabled (tls scenario_final 0) = 1"
    by (simp add: scenario_final_def)
  ultimately show ?thesis using f(1,2) resolved_final by blast
qed

text \<open>
  Claim C7. With the real primitives resolved, \<open>malloc(sz)\<close> returns exactly the pointer
  that the real \<open>malloc\<close> returns for \<open>sz\<close>. When that pointer is null no thread-local
  variable changes, even with tracking enabled. When it is non-null and tracking is enabled
  on the calling thread, \<open>allocations\<close> grows by 1 and \<open>bytes_allocated\<close> by \<open>sz\<close> (in
  \<open>uint64_t\<close> arithmetic, as the C increments are), and \<open>deallocations\<close> is unchanged.
\<close>

theorem malloc_passthrough:
  assumes "resolved pf s"
  shows "\<exists>s'. malloc pf t sz s = Inr (fst (libc_malloc pf (heap s) sz), s') \<and>
           (fst (libc_malloc pf (heap s) sz) = 0 \<longrightarrow> tls s' = tls s) \<and>
           (fst (libc_malloc pf (heap s) sz) \<noteq> 0 \<and> tracking_enabled (tls s t) \<noteq> 0 \<longrightarrow>
              allocations (stats (tls s' t)) = allocations (stats (tls s t)) + 1 \<and>
              bytes_allocated (stats (tls s' t)) = bytes_allocated (stats (tls s t)) + sz \<and>
              deallocations (stats (tls s' t)) = deallocations (stats (tls s t)))"
  using pthread_once_resolved[OF assms] assms
  by (auto simp: malloc_def Let_def resolved_def split: prod.splits)

text \<open>
  A request of 24 bytes succeeds and is counted; a request of 4097 bytes returns
  \<open>NULL\<close> and is not.
\<close>

theorem malloc_passthrough_witness:
  "resolved arena_platform scenario_final \<and>
   (\<exists>s'. malloc arena_platform 0 24 scenario_final = Inr (0x14000, s') \<and>
      tracking_current 0 s' = \<lparr>allocations = 3, deallocations = 1, bytes_allocated = 54\<rparr>) \<and>
   (\<exists>s'. malloc arena_platform 0 4097 scenario_final = Inr (0, s') \<and>
      tls s' = tls scenario_final)"
proof -
  have p1: "fst (libc_malloc arena_platform (heap scenario_final) 24) = 0x14000"
    by (simp add: arena_defs scenario_final_def)
  have p2: "fst (libc_malloc arena_platform (heap scenario_final) 4097) = 0"
    by (simp add: arena_defs scenario_final_def)
  have en: "tracking_enabled (tls scenario_final 0) \<noteq> 0"
    and st: "stats (tls scenario_final 0) =
      \<lparr>allocations = 2, deallocations = 1, bytes_allocated = 30\<rparr>"
    by (simp_all add: scenario_final_def)
  from malloc_passthrough[OF resolved_final, of 0 24] p1 en st obtain s' where
    "malloc arena_platform 0 24 scenario_final = Inr (0x14000, s')"
    "allocations (stats (tls s' 0)) = 3" "bytes_allocated (stats (tls s' 0)) = 54"
    "deallocations (stats (tls s' 0)) = 1"
    by auto
  then have a: "\<exists>s'. malloc arena_platform 0 24 scenario_final = Inr (0x14000, s') \<and>
      tracking_current 0 s' = \<lparr>allocations = 3, deallocations = 1, bytes_allocated = 54\<rparr>"
    by (auto simp: tracking_current_def AllocationStats.equality)
  from malloc_passthrough[OF resolved_final, of 0 4097] p2
  have b: "\<exists>s'. malloc arena_platform 0 4097 scenario_final = Inr (0, s') \<and>
      tls s' = tls scenario_final"
    by auto
  from a b resolved_final show ?thesis by blast
qed

text \<open>
  Claim C8 (thread isolation). Start the process and run any program in which thread
  \<open>t\<close> never calls \<open>tracking_start\<close>; the other threads may allocate, release and track as
  they like. Then \<open>tracking_current\<close> on \<open>t\<close> returns \<open>{0, 0, 0}\<close> at the end, and so
  did every \<open>tracking_current\<close> that \<open>t\<close> made on the way.
\<close>

theorem thread_isolation:
  assumes "run pf evs (process0 h) = Inr (rs, s')"
    and "\<forall>(u, c) \<in> set evs. u = t \<longrightarrow> c \<noteq> Tracking_start"
  shows "tracking_current t s' = \<lparr>allocations = 0, deallocations = 0, bytes_allocated = 0\<rparr> \<and>
         (\<forall>(e, x) \<in> set (zip evs rs). e = (t, Tracking_current) \<longrightarrow>
            x = Stats \<lparr>allocations = 0, deallocations = 0, bytes_allocated = 0\<rparr>)"
proof -
  have off: "tracking_enabled (tls (process0 h) t) = 0"
    by (simp add: process0_def)
  have z: "stats (tls (process0 h) t) =
      \<lparr>allocations = 0, deallocations = 0, bytes_allocated = 0\<rparr>"
    by (simp add: process0_def zero_stats_def)
  from run_frozen[OF assms(1) off assms(2)] z show ?thesis
    by (simp add: tracking_current_def)
qed

text \<open>
  In \<open>bystander\<close> thread 1 makes five allocations and never starts tracking, thread 0
  tracks two allocations of 30 bytes; thread 1 reads \<open>{0, 0, 0}\<close> throughout.
\<close>

theorem thread_isolation_witness:
  "\<exists>rs s'. run arena_platform bystander (process0 0x10000) = Inr (rs, s') \<and>
     rs ! 5 = Stats \<lparr>allocations = 0, deallocations = 0, bytes_allocated = 0\<rparr> \<and>
     rs ! 10 = Stats \<lparr>allocations = 2, deallocations = 0, bytes_allocated = 30\<rparr> \<and>
     tracking_current 1 s' = \<lparr>allocations = 0, deallocations = 0, bytes_allocated = 0\<rparr>"
proof -
  have "\<exists>rs s'. run arena_platform bystander (process0 0x10000) = Inr (rs, s') \<and>
     rs ! 5 = Stats \<lparr>allocations = 0, deallocations = 0, bytes_allocated = 0\<rparr> \<and>
     rs ! 10 = Stats \<lparr>allocations = 2, deallocations = 0, bytes_allocated = 30\<rparr>"
    by (simp add: bystander_def model_defs arena_defs)
  then obtain rs s' where
    rn: "run arena_platform bystander (process0 0x10000) = Inr (rs, s')" and
    r5: "rs ! 5 = Stats \<lparr>allocations = 0, deallocations = 0, bytes_allocated = 0\<rparr>" and
    r10: "rs ! 10 = Stats \<lparr>allocations = 2, deallocations = 0, bytes_allocated = 30\<rparr>"
    by blast
  have ns: "\<forall>(u, c) \<in> set bystander. u = 1 \<longrightarrow> c \<noteq> Tracking_start"
    by (simp add: bystander_def)
  from thread_isolation[OF rn ns] rn r5 r10 show ?thesis by blast
qed

text \<open>
  Claim C9. Across every \<open>malloc\<close> and \<open>free\<close> call of thread \<open>t\<close>, none of the three
  counters of \<open>t\<close> decreases and the flag stays as it was, so the property holds from one
  call to the next until the thread stops tracking. The only calls set aside are those
  that are counted (flag set, and the pointer returned by \<open>malloc\<close> or passed to \<open>free\<close>
  non-null) and whose increment does not fit into 64 bits: a call that is not counted needs
  no hypothesis, whatever its size. Overflow is not handled by the code: lemma
  \<open>counter_wraps_on_overflow\<close> shows a counter falling back to 0 on such a call.
\<close>

theorem counters_monotone:
  assumes "step pf t c s = Inr (r, s')"
    and "c = Malloc n \<or> c = Free p"
    and "tracking_enabled (tls s t) \<noteq> 0 \<and> in_window c \<and> succeeded r \<longrightarrow>
           no_wrap (stats (tls s t)) c"
  shows "stats_le (stats (tls s t)) (stats (tls s' t)) \<and>
         tracking_enabled (tls s' t) = tracking_enabled (tls s t)"
proof (cases c)
  case (Malloc m)
  with assms(1) obtain q where m: "malloc pf t m s = Inr (q, s')" and r: "r = Ptr q"
    by (auto split: sum.splits prod.splits)
  show ?thesis
  proof (cases "tracking_enabled (tls s t) \<noteq> 0 \<and> q \<noteq> 0")
    case True
    with assms(3) Malloc r have
      a: "allocations (stats (tls s t)) \<le> allocations (stats (tls s t)) + 1" and
      b: "bytes_allocated (stats (tls s t)) \<le> bytes_allocated (stats (tls s t)) + m"
      by (simp_all add: word64_le_plus)
    show ?thesis using malloc_Inr(4,5)[OF m] a b by (simp add: stats_le_def)
  next
    case False
    then show ?thesis using malloc_Inr(4,5)[OF m] by (auto simp: stats_le_def)
  qed
next
  case (Free q)
  with assms(1) have f: "free pf t q s = Inr s'" and r: "r = Void"
    by (auto split: sum.splits)
  show ?thesis
  proof (cases "tracking_enabled (tls s t) \<noteq> 0 \<and> q \<noteq> 0")
    case True
    with assms(3) Free r have
      d: "deallocations (stats (tls s t)) \<le> deallocations (stats (tls s t)) + 1"
      by (simp add: word64_le_plus)
    show ?thesis using free_Inr(3,4)[OF f] d by (simp add: stats_le_def)
  next
    case False
    then show ?thesis using free_Inr(3,4)[OF f] by (auto simp: stats_le_def)
  qed
qed (use assms(2) in auto)

text \<open>
  Inside the open window of thread 0: a counted allocation of 24 bytes, and a refused
  request of \<open>0xFFFFFFFFFFFFFFFF\<close> bytes, which is not counted and wraps nothing.
\<close>

theorem counters_monotone_witness:
  "tracking_enabled (tls scenario_final 0) = 1 \<and>
   no_wrap (stats (tls scenario_final 0)) (Malloc 24) \<and>
   (\<exists>s'. step arena_platform 0 (Malloc 24) scenario_final = Inr (Ptr 0x14000, s') \<and>
      stats_le (stats (tls scenario_final 0)) (stats (tls s' 0)) \<and>
      tracking_enabled (tls s' 0) = 1) \<and>
   \<not> no_wrap (stats (tls scenario_final 0)) (Malloc 0xFFFFFFFFFFFFFFFF) \<and>
   (\<exists>s'. step arena_platform 0 (Malloc 0xFFFFFFFFFFFFFFFF) scenario_final = Inr (Ptr 0, s') \<and>
      stats_le (stats (tls scenario_final 0)) (stats (tls s' 0)) \<and>
      tracking_enabled (tls s' 0) = 1)"
proof -
  have en: "tracking_enabled (tls scenario_final 0) = 1"
    by (simp add: scenario_final_def)
  have nw: "no_wrap (stats (tls scenario_final 0)) (Malloc 24)"
    by (simp add: scenario_final_def)
  have w: "\<not> no_wrap (stats (tls scenario_final 0)) (Malloc 0xFFFFFFFFFFFFFFFF)"
    by (simp add: scenario_final_def)
  obtain s1 where
    st1: "step arena_platform 0 (Malloc 24) scenario_final = Inr (Ptr 0x14000, s1)"
    by (simp add: scenario_final_def malloc_def pthread_once_def Let_def arena_defs)
  obtain s2 where
    st2: "step arena_platform 0 (Malloc 0xFFFFFFFFFFFFFFFF) scenario_final = Inr (Ptr 0, s2)"
    by (simp add: scenario_final_def malloc_def pthread_once_def Let_def arena_defs)
  have c1: "Malloc 24 = Malloc 24 \<or> Malloc 24 = Free 0" by simp
  have c2: "Malloc 0xFFFFFFFFFFFFFFFF = Malloc 0xFFFFFFFFFFFFFFFF \<or>
      Malloc 0xFFFFFFFFFFFFFFFF = Free 0" by simp
  have h1: "tracking_enabled (tls scenario_final 0) \<noteq> 0 \<and> in_window (Malloc 24) \<and>
      succeeded (Ptr 0x14000) \<longrightarrow> no_wrap (stats (tls scenario_final 0)) (Malloc 24)"
    using nw by simp
  have h2: "tracking_enabled (tls scenario_final 0) \<noteq> 0 \<and>
      in_window (Malloc 0xFFFFFFFFFFFFFFFF) \<and> succeeded (Ptr 0) \<longrightarrow>
      no_wrap (stats (tls scenario_final 0)) (Malloc 0xFFFFFFFFFFFFFFFF)"
    by simp
  from counters_monotone[OF st1 c1 h1] en have
    a: "stats_le (stats (tls scenario_final 0)) (stats (tls s1 0)) \<and>
      tracking_enabled (tls s1 0) = 1"
    by simp
  from counters_monotone[OF st2 c2 h2] en have
    b: "stats_le (stats (tls scenario_final 0)) (stats (tls s2 0)) \<and>
      tracking_enabled (tls s2 0) = 1"
    by simp
  from en nw w st1 st2 a b show ?thesis by blast
qed

text \<open>
  Claim C10. With the real primitives resolved and tracking enabled on thread \<open>t\<close>,
  \<open>free(p)\<close> for a non-null \<open>p\<close> adds exactly 1 to the deallocation count of \<open>t\<close> and leaves
  its other counters and its flag alone. Nothing is assumed about where \<open>p\<close> comes from: the
  code keeps no record of the pointers it handed out.
\<close>

theorem free_counts_any_pointer:
  assumes "resolved pf s" and "tracking_enabled (tls s t) \<noteq> 0" and "p \<noteq> 0"
  shows "\<exists>s'. free pf t p s = Inr s' \<and>
           deallocations (stats (tls s' t)) = deallocations (stats (tls s t)) + 1 \<and>
           allocations (stats (tls s' t)) = allocations (stats (tls s t)) \<and>
           bytes_allocated (stats (tls s' t)) = bytes_allocated (stats (tls s t)) \<and>
           tracking_enabled (tls s' t) = tracking_enabled (tls s t)"
  using pthread_once_resolved[OF assms(1)] assms
  by (auto simp: free_def Let_def resolved_def)

text \<open>
  Thread 0 releases \<open>0xDEAD0\<close>, which no \<open>malloc\<close> ever returned; it is counted.
\<close>

theorem free_counts_any_pointer_witness:
  "resolved arena_platform scenario_final \<and>
   tracking_enabled (tls scenario_final 0) \<noteq> 0 \<and>
   (\<exists>s'. free arena_platform 0 0xDEAD0 scenario_final = Inr s' \<and>
      tracking_current 0 s' = \<lparr>allocations = 2, deallocations = 2, bytes_allocated = 30\<rparr>)"
proof -
  have en: "tracking_enabled (tls scenario_final 0) \<noteq> 0"
    and st: "stats (tls scenario_final 0) =
      \<lparr>allocations = 2, deallocations = 1, bytes_allocated = 30\<rparr>"
    by (simp_all add: scenario_final_def)
  have nz: "(0xDEAD0 :: ptr) \<noteq> 0" by simp
  from free_counts_any_pointer[OF resolved_final en nz] st obtain s' where
    "free arena_platform 0 0xDEAD0 scenario_final = Inr s'"
    "deallocations (stats (tls s' 0)) = 2" "allocations (stats (tls s' 0)) = 2"
    "bytes_allocated (stats (tls s' 0)) = 30"
    by auto
  then have "\<exists>s'. free arena_platform 0 0xDEAD0 scenario_final = Inr s' \<and>
      tracking_current 0 s' = \<lparr>allocations = 2, deallocations = 2, bytes_allocated = 30\<rparr>"
    by (auto simp: tracking_current_def AllocationStats.equality)
  with resolved_final en show ?thesis by blast
qed

end
